theory Spec2Isabelle
  imports Complex_Main "HOL-Library.AList"
begin

section \<open>Python strings and dictionaries\<close>

text \<open>
  A Python \<open>str\<close> is a \<open>string\<close> (a list of characters). The model is exact on ASCII
  text: \<open>str.upper\<close> and \<open>str.lower\<close> change the letters \<open>a\<close>..\<open>z\<close> and
  \<open>A\<close>..\<open>Z\<close> and leave every other character alone.
\<close>

definition upper_char :: "char \<Rightarrow> char" where
  "upper_char c =
     (case map_of (zip ''abcdefghijklmnopqrstuvwxyz'' ''ABCDEFGHIJKLMNOPQRSTUVWXYZ'') c of
        Some u \<Rightarrow> u | None \<Rightarrow> c)"

definition lower_char :: "char \<Rightarrow> char" where
  "lower_char c =
     (case map_of (zip ''ABCDEFGHIJKLMNOPQRSTUVWXYZ'' ''abcdefghijklmnopqrstuvwxyz'') c of
        Some l \<Rightarrow> l | None \<Rightarrow> c)"

definition upper :: "string \<Rightarrow> string" where
  "upper s = map upper_char s"

definition lower :: "string \<Rightarrow> string" where
  "lower s = map lower_char s"

text \<open>\<open>sub in s\<close> on strings: \<open>sub\<close> occurs in \<open>s\<close> as a contiguous block.\<close>

fun str_in :: "string \<Rightarrow> string \<Rightarrow> bool" where
  "str_in sub [] = (sub = [])"
| "str_in sub (c # cs) = (take (length sub) (c # cs) = sub \<or> str_in sub cs)"

text \<open>
  \<open>d.get(key, default)\<close>: a key of a dictionary that may be absent is an \<open>option\<close>
  (\<open>None\<close> when the dictionary has no such key).
\<close>

definition dict_get :: "'a option \<Rightarrow> 'a \<Rightarrow> 'a" where
  "dict_get v dflt = (case v of None \<Rightarrow> dflt | Some x \<Rightarrow> x)"

text \<open>
  The dictionary that describes one asset (\<open>Dict[str, Any]\<close>), with the keys the code
  reads, each at the type the code uses it at. A catalog entry has \<open>name\<close>,
  \<open>aliases\<close>, \<open>confidence\<close> and sometimes \<open>sectors\<close>; an extracted asset has
  \<open>ticker\<close>, \<open>name\<close> and \<open>confidence\<close>. Confidence scores are exact rationals.
\<close>

record asset =
  ticker :: "string option"
  name :: "string option"
  aliases :: "string list option"
  confidence :: "rat option"
  sectors :: "string list option"
  collision_candidates :: "string list option"

text \<open>The empty dictionary \<open>{}\<close>.\<close>

definition empty_dict :: asset where
  "empty_dict = \<lparr> ticker = None, name = None, aliases = None, confidence = None,
                  sectors = None, collision_candidates = None \<rparr>"

section \<open>The asset catalog (agentic/data/crypto\_assets.py)\<close>

text \<open>One entry of \<open>CRYPTO_ASSETS\<close>; \<open>secs\<close> is \<open>None\<close> when the entry has no \<open>sectors\<close> key.\<close>

definition entry :: "string \<Rightarrow> string list \<Rightarrow> rat \<Rightarrow> string list option \<Rightarrow> asset" where
  "entry n als c secs = \<lparr> ticker = None, name = Some n, aliases = Some als,
                          confidence = Some c, sectors = secs, collision_candidates = None \<rparr>"

definition CRYPTO_ASSETS :: "(string \<times> asset) list" where
  "CRYPTO_ASSETS =
    [(''BTC'', entry ''Bitcoin'' [''bitcoin'', ''btc'', ''king'', ''king of crypto''] (99/100) None),
     (''ETH'', entry ''Ethereum'' [''ethereum'', ''eth'', ''etherium'', ''smart contract platform''] (98/100) None),
     (''ADA'', entry ''Cardano'' [''cardano'', ''ada''] (95/100) None),
     (''DOT'', entry ''Polkadot'' [''polkadot'', ''dot'', ''internet of blockchains''] (95/100) None),
     (''LINK'', entry ''Chainlink'' [''chainlink'', ''link'', ''oracle network''] (94/100) None),
     (''UNI'', entry ''Uniswap'' [''uniswap'', ''uni'', ''dex token''] (93/100) None),
     (''LTC'', entry ''Litecoin'' [''litecoin'', ''ltc''] (92/100) None),
     (''BCH'', entry ''Bitcoin Cash'' [''bitcoin cash'', ''bch''] (91/100) None),
     (''SOL'', entry ''Solana'' [''solana'', ''sol''] (96/100) None),
     (''MATIC'', entry ''Polygon'' [''polygon'', ''matic''] (94/100) None),
     (''AVAX'', entry ''Avalanche'' [''avalanche'', ''avax''] (93/100) None),
     (''ATOM'', entry ''Cosmos'' [''cosmos'', ''atom''] (92/100) None),
     (''ALGO'', entry ''Algorand'' [''algorand'', ''algo''] (90/100) None),
     (''XLM'', entry ''Stellar'' [''stellar'', ''xlm''] (89/100) None),
     (''VET'', entry ''VeChain'' [''vechain'', ''vet''] (88/100) None),
     (''FET'', entry ''Fetch.ai'' [''fetch.ai'', ''fetch'', ''fet''] (85/100) (Some [''AI''])),
     (''NEAR'', entry ''NEAR Protocol'' [''near protocol'', ''near''] (87/100) (Some [''AI'', ''Layer1''])),
     (''RNDR'', entry ''Render'' [''render'', ''rndr''] (86/100) (Some [''AI'', ''Compute''])),
     (''OCEAN'', entry ''Ocean Protocol'' [''ocean protocol'', ''ocean''] (84/100) (Some [''AI'', ''Data''])),
     (''AGIX'', entry ''SingularityNET'' [''singularitynet'', ''agix''] (83/100) (Some [''AI''])),
     (''AAVE'', entry ''Aave'' [''aave''] (92/100) (Some [''DeFi''])),
     (''COMP'', entry ''Compound'' [''compound'', ''comp''] (91/100) (Some [''DeFi''])),
     (''SUSHI'', entry ''SushiSwap'' [''sushiswap'', ''sushi''] (89/100) (Some [''DeFi''])),
     (''AXS'', entry ''Axie Infinity'' [''axie infinity'', ''axs''] (88/100) (Some [''Gaming''])),
     (''MANA'', entry ''Decentraland'' [''decentraland'', ''mana''] (87/100) (Some [''Gaming'', ''Metaverse''])),
     (''PEPE'', entry ''Pepe'' [''pepe''] (80/100) (Some [''Meme''])),
     (''DOGE'', entry ''Dogecoin'' [''dogecoin'', ''doge''] (85/100) (Some [''Meme''])),
     (''SHIB'', entry ''Shiba Inu'' [''shiba inu'', ''shib''] (84/100) (Some [''Meme''])),
     (''USDT'', entry ''Tether'' [''tether'', ''usdt''] (96/100) (Some [''Stablecoin''])),
     (''USDC'', entry ''USD Coin'' [''usd coin'', ''usdc''] (95/100) (Some [''Stablecoin''])),
     (''DAI'', entry ''Dai'' [''dai''] (94/100) (Some [''Stablecoin''])),
     (''ARB'', entry ''Arbitrum'' [''arbitrum'', ''arb''] (93/100) (Some [''Layer2''])),
     (''OP'', entry ''Optimism'' [''optimism'', ''op''] (92/100) (Some [''Layer2''])),
     (''IMX'', entry ''Immutable'' [''immutable'', ''imx''] (90/100) (Some [''Layer2'', ''Gaming'']))]"

definition SECTOR_MAPPINGS :: "(string \<times> string list) list" where
  "SECTOR_MAPPINGS =
    [(''AI'', [''FET'', ''NEAR'', ''RNDR'', ''OCEAN'', ''AGIX'']),
     (''DeFi'', [''AAVE'', ''COMP'', ''SUSHI'', ''UNI'']),
     (''Gaming'', [''AXS'', ''MANA'', ''IMX'']),
     (''Layer1'', [''BTC'', ''ETH'', ''SOL'', ''ADA'', ''DOT'', ''AVAX'']),
     (''Layer2'', [''ARB'', ''OP'', ''MATIC'']),
     (''Meme'', [''PEPE'', ''DOGE'', ''SHIB'']),
     (''Stablecoin'', [''USDT'', ''USDC'', ''DAI''])]"

definition MISSPELLINGS :: "(string \<times> string) list" where
  "MISSPELLINGS =
    [(''etherium'', ''ETH''), (''bitcon'', ''BTC''), (''solana'', ''SOL''),
     (''polkadot'', ''DOT''), (''chainlink'', ''LINK''), (''uniswap'', ''UNI''),
     (''litecoin'', ''LTC''), (''bitcoin cash'', ''BCH''), (''polygon'', ''MATIC''),
     (''avalanche'', ''AVAX''), (''cosmos'', ''ATOM''), (''algorand'', ''ALGO''),
     (''stellar'', ''XLM''), (''vechain'', ''VET'')]"

definition CRYPTO_TICKERS :: "(string \<times> string) list" where
  "CRYPTO_TICKERS =
    [(''Bitcoin'', ''BTC''), (''Ethereum'', ''ETH''), (''Cardano'', ''ADA''),
     (''Polkadot'', ''DOT''), (''Chainlink'', ''LINK''), (''Uniswap'', ''UNI''),
     (''Litecoin'', ''LTC''), (''Bitcoin Cash'', ''BCH''), (''Solana'', ''SOL''),
     (''Polygon'', ''MATIC''), (''Avalanche'', ''AVAX''), (''Cosmos'', ''ATOM''),
     (''Algorand'', ''ALGO''), (''Stellar'', ''XLM''), (''VeChain'', ''VET'')]"

text \<open>\<open>CRYPTO_ASSETS.get(ticker.upper(), {})\<close>\<close>

definition get_asset_by_ticker :: "string \<Rightarrow> asset" where
  "get_asset_by_ticker t = dict_get (map_of CRYPTO_ASSETS (upper t)) empty_dict"

text \<open>\<open>SECTOR_MAPPINGS.get(sector.upper(), [])\<close>\<close>

definition get_assets_by_sector :: "string \<Rightarrow> string list" where
  "get_assets_by_sector sector = dict_get (map_of SECTOR_MAPPINGS (upper sector)) []"

definition is_stablecoin :: "string \<Rightarrow> bool" where
  "is_stablecoin t =
     (let asset = get_asset_by_ticker t
      in ''Stablecoin'' \<in> set (dict_get (sectors asset) []))"

definition get_confidence_threshold :: rat where
  "get_confidence_threshold = 85/100"

definition should_trigger_hitl :: "rat \<Rightarrow> asset \<Rightarrow> bool" where
  "should_trigger_hitl conf asset_info =
     (if conf < get_confidence_threshold then True
      else if ''Meme'' \<in> set (dict_get (sectors asset_info) []) then True
      else if collision_candidates asset_info \<noteq> None then True
      else False)"

definition get_available_tickers :: "string list" where
  "get_available_tickers = map snd CRYPTO_TICKERS"

definition is_valid_ticker :: "string \<Rightarrow> bool" where
  "is_valid_ticker t = (t \<in> set get_available_tickers)"

section \<open>The placeholder resolver (agentic/workflows/crypto\_analysis\_workflow.py)\<close>

definition common_tickers :: "string list" where
  "common_tickers = [''BTC'', ''ETH'', ''ADA'', ''DOT'', ''LINK'', ''UNI'', ''LTC'', ''BCH'']"

text \<open>
  The loop of \<open>_extract_ticker_from_text\<close> over the tickers still to try: it returns at
  the first ticker whose lower-case form occurs in the lower-cased text, and falls
  through to the default \<open>"BTC"\<close>.
\<close>

fun extract_loop :: "string list \<Rightarrow> string \<Rightarrow> string" where
  "extract_loop [] text = ''BTC''"
| "extract_loop (tkr # rest) text =
     (if str_in (lower tkr) (lower text) then tkr else extract_loop rest text)"

definition extract_ticker_from_text :: "string \<Rightarrow> string" where
  "extract_ticker_from_text text = extract_loop common_tickers text"

section \<open>Pipeline state (agentic/workflows/global\_state.py)\<close>

text \<open>
  Values the pipeline only stores and passes on (messages, price points, articles,
  indicator tables, message metadata) are Python values as they are.
\<close>

datatype pyval =
    PNone
  | PBool bool
  | PInt int
  | PFloat rat
  | PStr string
  | PList "pyval list"
  | PDict "(string \<times> pyval) list"

type_synonym pydict = "(string \<times> pyval) list"

text \<open>The exceptions the stages meet: a missing dictionary key, or any other exception
  with its message.\<close>

datatype exn = KeyError string | Exception string

text \<open>\<open>str(e)\<close>: a \<open>KeyError\<close> prints the key in quotes.\<close>

fun str_exn :: "exn \<Rightarrow> string" where
  "str_exn (KeyError k) = [CHR 0x27] @ k @ [CHR 0x27]"
| "str_exn (Exception msg) = msg"

text \<open>
  The parsed reply of the language model, \<open>json.loads(asset_chain.invoke(...))\<close>, with
  the keys the extraction stage reads, each at the type the reply's format gives it
  (a list of asset dictionaries, strings, a boolean); each key may be absent.
\<close>

record asset_data =
  extracted_assets :: "asset list option"
  mode :: "string option"
  meta :: "pydict option"
  parse_notes :: "string option"
  hitl_required :: "bool option"
  hitl_reason :: "string option"

text \<open>
  What the stages call outside the program: the two language-model chains (a call
  either raises or returns; the asset chain's reply is taken after \<open>json.loads\<close>, and
  a reply that does not parse to a dictionary of the expected shape is an exception
  too, as it is in the stage's \<open>try\<close> block), Python's formatting of a value inside an
  f-string, and the report writer. They are parameters of the model, so every theorem
  holds for any behaviour of them.
\<close>

record env =
  asset_chain :: "pyval \<Rightarrow> exn + asset_data"
  ticker_chain :: "pyval \<Rightarrow> exn + string"
  py_str :: "pyval \<Rightarrow> string"
  generate_comprehensive_report :: "asset list \<Rightarrow> string \<Rightarrow> string list \<Rightarrow> string"

text \<open>
  \<open>GlobalState\<close>: the eight keys the \<open>TypedDict\<close> declares are always present; the keys
  the enhanced workflow adds are read with \<open>state.get\<close> and may be absent.
\<close>

record global_state =
  ticker :: string
  price_history :: "pydict list"
  technical_indicators :: pydict
  news_articles :: "pydict list"
  sentiment_scores :: pydict
  risk_profile :: pydict
  user_feedback :: pydict
  messages :: "pydict list"
  extracted_assets :: "asset list option"
  analysis_mode :: "string option"
  analysis_meta :: "pydict option"
  parse_notes :: "string option"
  hitl_required :: "bool option"
  hitl_reason :: "string option"
  asset_warnings :: "string list option"
  all_price_data :: "(string \<times> pydict list) list option"
  all_technical_indicators :: "(string \<times> pydict) list option"
  all_news :: "(string \<times> pydict list) list option"
  all_sentiment :: "(string \<times> pydict) list option"
  comprehensive_report :: "string option"

text \<open>The state the test drivers start a run from: empty fields and one user message.\<close>

definition initial_state :: "string \<Rightarrow> global_state" where
  "initial_state user_input =
     \<lparr> ticker = '''', price_history = [], technical_indicators = [], news_articles = [],
       sentiment_scores = [], risk_profile = [], user_feedback = [],
       messages = [[(''role'', PStr ''user''), (''content'', PStr user_input),
                    (''timestamp'', PStr ''2024-01-01T00:00:00Z'')]],
       extracted_assets = None, analysis_mode = None, analysis_meta = None,
       parse_notes = None, hitl_required = None, hitl_reason = None,
       asset_warnings = None, all_price_data = None, all_technical_indicators = None,
       all_news = None, all_sentiment = None, comprehensive_report = None \<rparr>"

text \<open>
  \<open>state.get("messages", [{}])[-1].get("content", "") if state.get("messages") else ""\<close>
\<close>

definition user_input_of :: "global_state \<Rightarrow> pyval" where
  "user_input_of state =
     (if messages state \<noteq> [] then dict_get (map_of (last (messages state)) ''content'') (PStr '''')
      else PStr '''')"


text \<open>\<open>asset.get("confidence", 0)\<close>, as a number and as a Python value.\<close>

definition confidence_of :: "asset \<Rightarrow> rat" where
  "confidence_of a = dict_get (confidence a) 0"

definition confidence_py :: "asset \<Rightarrow> pyval" where
  "confidence_py a = (case confidence a of None \<Rightarrow> PInt 0 | Some c \<Rightarrow> PFloat c)"

text \<open>\<open>[asset['ticker'] for asset in extracted_assets]\<close>: a \<open>KeyError\<close> when an asset has
  no \<open>ticker\<close> key.\<close>

definition tickers_of :: "asset list \<Rightarrow> exn + string list" where
  "tickers_of assets =
     (case those (map asset.ticker assets) of
        None \<Rightarrow> Inl (KeyError ''ticker'')
      | Some ts \<Rightarrow> Inr ts)"

section \<open>The enhanced workflow (agentic/workflows/enhanced\_asset\_extraction\_workflow.py)\<close>

subsection \<open>Asset extraction\<close>

definition fallback_asset :: asset where
  "fallback_asset = \<lparr> asset.ticker = Some ''BTC'', name = Some ''Bitcoin'', aliases = None,
                      confidence = Some (5/10), sectors = None, collision_candidates = None \<rparr>"

text \<open>
  The \<open>try\<close> block of \<open>_enhanced_asset_extraction_agent\<close>. It returns the state as the
  block left it and the exception that ended it, if one did: the writes made before the
  exception stay in the state. The first asset's ticker is read before any write; the
  tickers of all assets are read while the message is built, after the seven writes.
\<close>

definition extraction_try :: "env \<Rightarrow> string \<Rightarrow> global_state \<Rightarrow> global_state \<times> exn option" where
  "extraction_try rt now state =
     (case asset_chain rt (user_input_of state) of
        Inl e \<Rightarrow> (state, Some e)
      | Inr data \<Rightarrow>
          (let assets = dict_get (asset_data.extracted_assets data) [] in
           case (case assets of
                   [] \<Rightarrow> Inr ''BTC''
                 | a # _ \<Rightarrow> (case asset.ticker a of
                               None \<Rightarrow> Inl (KeyError ''ticker'')
                             | Some t \<Rightarrow> Inr t)) of
             Inl e \<Rightarrow> (state, Some e)
           | Inr primary_ticker \<Rightarrow>
               (let state1 = state
                      \<lparr> ticker := primary_ticker,
                        extracted_assets := Some assets,
                        analysis_mode := Some (dict_get (mode data) ''asset_specific''),
                        analysis_meta := Some (dict_get (meta data) []),
                        parse_notes := Some (dict_get (asset_data.parse_notes data) ''''),
                        hitl_required := Some (dict_get (asset_data.hitl_required data) False),
                        hitl_reason := Some (dict_get (asset_data.hitl_reason data) '''') \<rparr>
                in case tickers_of assets of
                     Inl e \<Rightarrow> (state1, Some e)
                   | Inr ts \<Rightarrow>
                       (state1 \<lparr> messages := messages state1 @
                          [[(''role'', PStr ''agent''),
                            (''agent'', PStr ''enhanced_asset_extraction''),
                            (''content'', PStr (''Enhanced AI extracted '' @
                               py_str rt (PInt (int (length assets))) @ '' assets: '' @
                               py_str rt (PList (map PStr ts)))),
                            (''timestamp'', PStr now),
                            (''metadata'', PDict
                               [(''mode'', (case mode data of None \<Rightarrow> PNone | Some m \<Rightarrow> PStr m)),
                                (''confidence_scores'', PList (map confidence_py assets)),
                                (''hitl_required'',
                                   PBool (dict_get (asset_data.hitl_required data) False))])]] \<rparr>,
                        None))))"

text \<open>The \<open>except\<close> block: the fallback to BTC.\<close>

definition extraction_except :: "string \<Rightarrow> exn \<Rightarrow> global_state \<Rightarrow> global_state" where
  "extraction_except now e state =
     state \<lparr> ticker := ''BTC'',
             extracted_assets := Some [fallback_asset],
             analysis_mode := Some ''asset_specific'',
             hitl_required := Some True,
             hitl_reason := Some ''extraction_error'',
             messages := messages state @
               [[(''role'', PStr ''agent''),
                 (''agent'', PStr ''enhanced_asset_extraction''),
                 (''content'', PStr ''Asset extraction failed, using fallback: BTC''),
                 (''timestamp'', PStr now),
                 (''metadata'', PDict [(''error'', PStr (str_exn e))])]] \<rparr>"

definition enhanced_asset_extraction_agent :: "env \<Rightarrow> string \<Rightarrow> global_state \<Rightarrow> global_state" where
  "enhanced_asset_extraction_agent rt now state =
     (case extraction_try rt now state of
        (state', None) \<Rightarrow> state'
      | (state', Some e) \<Rightarrow> extraction_except now e state')"

subsection \<open>Asset validation\<close>

text \<open>The loop of \<open>_asset_validation_agent\<close> over the assets still to check, with the
  warnings appended so far.\<close>

fun validation_loop :: "env \<Rightarrow> asset list \<Rightarrow> string list \<Rightarrow> string list" where
  "validation_loop rt [] warnings = warnings"
| "validation_loop rt (a # rest) warnings =
     (let tkr = dict_get (asset.ticker a) '''';
          conf = confidence_of a;
          w1 = (if is_stablecoin tkr
                then warnings @ [''Stablecoin detected: '' @ tkr @
                                 '' - Technical analysis may not be meaningful'']
                else warnings);
          w2 = (if conf < 85/100
                then w1 @ [''Low confidence in '' @ tkr @ '': '' @ py_str rt (confidence_py a)]
                else w1);
          asset_info = get_asset_by_ticker tkr;
          w3 = (if ''Meme'' \<in> set (dict_get (sectors asset_info) [])
                then w2 @ [''Meme coin detected: '' @ tkr @ '' - High volatility expected'']
                else w2)
      in validation_loop rt rest w3)"

definition asset_validation_agent :: "env \<Rightarrow> string \<Rightarrow> global_state \<Rightarrow> global_state" where
  "asset_validation_agent rt now state =
     (let assets = dict_get (extracted_assets state) [];
          warnings = validation_loop rt assets []
      in state \<lparr> asset_warnings := Some warnings,
                 messages := messages state @
                   [[(''role'', PStr ''agent''),
                     (''agent'', PStr ''asset_validation''),
                     (''content'', PStr (''Asset validation complete. Warnings: '' @
                        py_str rt (PInt (int (length warnings))))),
                     (''timestamp'', PStr now),
                     (''metadata'', PDict [(''warnings'', PList (map PStr warnings))])]] \<rparr>)"

text \<open>
  The validation rules in the spec's words: the warnings one asset gives rise to, from
  its own confidence and the sectors of its catalog entry.
\<close>

definition warnings_for :: "env \<Rightarrow> asset \<Rightarrow> string list" where
  "warnings_for rt a =
     (let tkr = dict_get (asset.ticker a) '''';
          catalog_sectors = dict_get (sectors (get_asset_by_ticker tkr)) []
      in (if ''Stablecoin'' \<in> set catalog_sectors
          then [''Stablecoin detected: '' @ tkr @ '' - Technical analysis may not be meaningful'']
          else []) @
         (if confidence_of a < get_confidence_threshold
          then [''Low confidence in '' @ tkr @ '': '' @ py_str rt (confidence_py a)]
          else []) @
         (if ''Meme'' \<in> set catalog_sectors
          then [''Meme coin detected: '' @ tkr @ '' - High volatility expected'']
          else []))"

subsection \<open>Human in the loop\<close>



subsection \<open>Enrichment stages\<close>














subsection \<open>The workflow graph\<close>



text \<open>
  The review decision a state holds is consistent: review is required exactly when the
  reason code is neither empty nor \<open>none\<close>.
\<close>

definition hitl_consistent :: "bool \<Rightarrow> string \<Rightarrow> bool" where
  "hitl_consistent required reason = (required \<longleftrightarrow> (reason \<noteq> '''' \<and> reason \<noteq> ''none''))"

section \<open>The AI ticker-extraction stage (agentic/workflows/ai\_enhanced\_workflow.py)\<close>

text \<open>\<open>str.strip()\<close>: drops the white space at both ends (the ASCII white space
  characters of \<open>str.isspace\<close>).\<close>

definition is_space :: "char \<Rightarrow> bool" where
  "is_space c = (c \<in> set [CHR 0x09, CHR 0x0A, CHR 0x0B, CHR 0x0C, CHR 0x0D,
                         CHR 0x1C, CHR 0x1D, CHR 0x1E, CHR 0x1F, CHR 0x20])"

definition strip :: "string \<Rightarrow> string" where
  "strip s = rev (dropWhile is_space (rev (dropWhile is_space s)))"

text \<open>\<open>ticker.replace('"', '').replace("'", "").strip()\<close> on the stripped reply.\<close>

definition clean_reply :: "string \<Rightarrow> string" where
  "clean_reply reply =
     strip (filter (\<lambda>c. c \<noteq> CHR 0x27) (filter (\<lambda>c. c \<noteq> CHR 0x22) (strip reply)))"

definition ai_ticker_extraction_agent :: "env \<Rightarrow> global_state \<Rightarrow> global_state" where
  "ai_ticker_extraction_agent rt state =
     (let user_input = user_input_of state;
          tkr = (case ticker_chain rt user_input of
                   Inl e \<Rightarrow> ''BTC''
                 | Inr reply \<Rightarrow>
                     (let t = clean_reply reply
                      in if \<not> is_valid_ticker t then ''BTC'' else t))
      in state \<lparr> ticker := tkr,
                 messages := messages state @
                   [[(''role'', PStr ''agent''),
                     (''agent'', PStr ''ai_ticker_extraction''),
                     (''content'', PStr (''AI extracted ticker: '' @ tkr @ '' from input: '' @
                        [CHR 0x27] @ py_str rt user_input @ [CHR 0x27])),
                     (''timestamp'', PStr ''2024-01-01T00:00:00Z'')]] \<rparr>)"

section \<open>Example environments\<close>

text \<open>An environment whose asset chain gives one fixed reply and whose ticker chain
  gives one fixed reply; values are formatted as the empty string.\<close>

definition env_replying :: "(exn + asset_data) \<Rightarrow> (exn + string) \<Rightarrow> env" where
  "env_replying assets_reply ticker_reply =
     \<lparr> asset_chain = (\<lambda>_. assets_reply), ticker_chain = (\<lambda>_. ticker_reply),
       py_str = (\<lambda>_. ''''), generate_comprehensive_report = (\<lambda>_ _ _. '''') \<rparr>"

text \<open>A reply of the language model with no key at all, \<open>{}\<close>.\<close>

definition empty_reply :: asset_data where
  "empty_reply = \<lparr> asset_data.extracted_assets = None, mode = None, meta = None,
                   asset_data.parse_notes = None, asset_data.hitl_required = None,
                   asset_data.hitl_reason = None \<rparr>"

text \<open>An extracted asset \<open>{"ticker": t, "name": n, "confidence": c}\<close>.\<close>

definition extracted :: "string \<Rightarrow> string \<Rightarrow> rat \<Rightarrow> asset" where
  "extracted t n c = \<lparr> asset.ticker = Some t, name = Some n, aliases = None,
                       confidence = Some c, sectors = None, collision_candidates = None \<rparr>"

section \<open>Catalog accessors\<close>

lemma catalog_keys:
  "map fst CRYPTO_ASSETS =
     [''BTC'', ''ETH'', ''ADA'', ''DOT'', ''LINK'', ''UNI'', ''LTC'', ''BCH'', ''SOL'', ''MATIC'',
      ''AVAX'', ''ATOM'', ''ALGO'', ''XLM'', ''VET'', ''FET'', ''NEAR'', ''RNDR'', ''OCEAN'',
      ''AGIX'', ''AAVE'', ''COMP'', ''SUSHI'', ''AXS'', ''MANA'', ''PEPE'', ''DOGE'', ''SHIB'',
      ''USDT'', ''USDC'', ''DAI'', ''ARB'', ''OP'', ''IMX'']"
  by (simp add: CRYPTO_ASSETS_def)

lemma available_tickers:
  "get_available_tickers =
     [''BTC'', ''ETH'', ''ADA'', ''DOT'', ''LINK'', ''UNI'', ''LTC'', ''BCH'', ''SOL'', ''MATIC'',
      ''AVAX'', ''ATOM'', ''ALGO'', ''XLM'', ''VET'']"
  by (simp add: get_available_tickers_def CRYPTO_TICKERS_def)

text \<open>
  Claim C3. \<open>get_assets_by_sector\<close> upper-cases the tag before it looks it up, and six
  of the seven keys of \<open>SECTOR_MAPPINGS\<close> are written in mixed case. So the key
  \<open>DeFi\<close> has four members in the index, and the accessor returns the empty list for
  it; of the seven keys only \<open>AI\<close> gets its members back.
\<close>

theorem get_assets_by_sector_mixed_case:
  "map_of SECTOR_MAPPINGS ''DeFi'' = Some [''AAVE'', ''COMP'', ''SUSHI'', ''UNI''] \<and>
   get_assets_by_sector ''DeFi'' = [] \<and>
   map (\<lambda>(k, members). get_assets_by_sector k) SECTOR_MAPPINGS =
     [[''FET'', ''NEAR'', ''RNDR'', ''OCEAN'', ''AGIX''], [], [], [], [], [], []]"
  by code_simp

text \<open>
  Claim C5, counterexample. DOGE has confidence 0.85, which is not below the threshold,
  and its catalog entry has no \<open>collision_candidates\<close>; the trigger still asks for review,
  because the entry is in the Meme sector.
\<close>

theorem should_trigger_hitl_meme_counterexample:
  "get_confidence_threshold \<le> 85/100 \<and>
   collision_candidates (get_asset_by_ticker ''DOGE'') = None \<and>
   should_trigger_hitl (85/100) (get_asset_by_ticker ''DOGE'')"
  by (simp add: get_asset_by_ticker_def CRYPTO_ASSETS_def upper_def upper_char_def dict_get_def
      entry_def should_trigger_hitl_def get_confidence_threshold_def)

text \<open>
  Claim C5, amended. The threshold is 0.85. For a confidence of at least the threshold,
  an asset whose sectors do not include Meme and that has no \<open>collision_candidates\<close> key
  (no ambiguity signal), \<open>should_trigger_hitl\<close> returns False. The function has no other
  input: the fallback path and the sector mode play no part in it.
\<close>

theorem should_trigger_hitl_no_review:
  assumes "get_confidence_threshold \<le> conf"
    and "''Meme'' \<notin> set (dict_get (sectors asset_info) [])"
    and "collision_candidates asset_info = None"
  shows "get_confidence_threshold = 85/100 \<and> \<not> should_trigger_hitl conf asset_info"
  using assms by (simp add: should_trigger_hitl_def get_confidence_threshold_def)

theorem should_trigger_hitl_no_review_witness:
  "get_confidence_threshold \<le> 99/100 \<and>
   ''Meme'' \<notin> set (dict_get (sectors (get_asset_by_ticker ''BTC'')) []) \<and>
   collision_candidates (get_asset_by_ticker ''BTC'') = None \<and>
   \<not> should_trigger_hitl (99/100) (get_asset_by_ticker ''BTC'')"
proof -
  have h1: "get_confidence_threshold \<le> 99/100"
    by (simp add: get_confidence_threshold_def)
  have h2: "''Meme'' \<notin> set (dict_get (sectors (get_asset_by_ticker ''BTC'')) [])"
    by (simp add: get_asset_by_ticker_def CRYPTO_ASSETS_def upper_def upper_char_def
        dict_get_def entry_def)
  have h3: "collision_candidates (get_asset_by_ticker ''BTC'') = None"
    by (simp add: get_asset_by_ticker_def CRYPTO_ASSETS_def upper_def upper_char_def
        dict_get_def entry_def)
  from should_trigger_hitl_no_review [OF h1 h2 h3] h1 h2 h3 show ?thesis by simp
qed




section \<open>The placeholder resolver\<close>

lemma str_in_iff: "str_in sub s \<longleftrightarrow> (\<exists>u v. s = u @ sub @ v)"
proof (induction s)
  case Nil
  then show ?case by auto
next
  case (Cons c cs)
  show ?case
  proof
    assume "str_in sub (c # cs)"
    then consider "take (length sub) (c # cs) = sub" | "str_in sub cs" by auto
    then show "\<exists>u v. c # cs = u @ sub @ v"
    proof cases
      case 1
      have "c # cs = take (length sub) (c # cs) @ drop (length sub) (c # cs)"
        by (simp only: append_take_drop_id)
      with 1 have "c # cs = [] @ sub @ drop (length sub) (c # cs)"
        by simp
      then show ?thesis by blast
    next
      case 2
      then obtain u v where "cs = u @ sub @ v" using Cons.IH by auto
      then have "c # cs = (c # u) @ sub @ v" by simp
      then show ?thesis by blast
    qed
  next
    assume "\<exists>u v. c # cs = u @ sub @ v"
    then obtain u v where uv: "c # cs = u @ sub @ v" by auto
    show "str_in sub (c # cs)"
    proof (cases u)
      case Nil
      then have "take (length sub) (c # cs) = sub" using uv by simp
      then show ?thesis by simp
    next
      case (Cons a u')
      then have "cs = u' @ sub @ v" using uv by simp
      then have "str_in sub cs" using Cons.IH by blast
      then show ?thesis by simp
    qed
  qed
qed

lemma extract_loop_none:
  "\<forall>t\<in>set ts. \<not> str_in (lower t) (lower text) \<Longrightarrow> extract_loop ts text = ''BTC''"
  by (induction ts) auto

lemma extract_loop_first:
  "\<exists>t\<in>set ts. str_in (lower t) (lower text) \<Longrightarrow>
     str_in (lower (extract_loop ts text)) (lower text) \<and>
     (\<exists>pre post. ts = pre @ extract_loop ts text # post \<and>
        (\<forall>p\<in>set pre. \<not> str_in (lower p) (lower text)))"
proof (induction ts)
  case Nil
  then show ?case by simp
next
  case (Cons a ts)
  consider (hit) "str_in (lower a) (lower text)" | (miss) "\<not> str_in (lower a) (lower text)"
    by blast
  then show ?case
  proof cases
    case hit
    then have "a # ts = [] @ extract_loop (a # ts) text # ts" by simp
    moreover have "\<forall>p\<in>set []. \<not> str_in (lower p) (lower text)" by simp
    moreover from hit have "str_in (lower (extract_loop (a # ts) text)) (lower text)" by simp
    ultimately show ?thesis by blast
  next
    case miss
    with Cons.prems have "\<exists>t\<in>set ts. str_in (lower t) (lower text)" by auto
    from Cons.IH [OF this] obtain pre post where
      a: "str_in (lower (extract_loop ts text)) (lower text)" and
      b: "ts = pre @ extract_loop ts text # post" and
      c: "\<forall>p\<in>set pre. \<not> str_in (lower p) (lower text)" by blast
    from miss have e: "extract_loop (a # ts) text = extract_loop ts text" by simp
    from b have "a # ts = (a # pre) @ extract_loop ts text # post" by simp
    moreover from c miss have "\<forall>p\<in>set (a # pre). \<not> str_in (lower p) (lower text)" by simp
    ultimately show ?thesis using a e by metis
  qed
qed

lemma common_symbols_are_aliases:
  "list_all (\<lambda>t. lower t \<in> set (dict_get (aliases (get_asset_by_ticker t)) [])) common_tickers"
  by code_simp

lemma misspellings_resolved:
  "list_all (\<lambda>(k, t). extract_ticker_from_text k =
      (if k \<in> set [''etherium'', ''bitcon'', ''polkadot'', ''chainlink'', ''uniswap''] then t
       else ''BTC'')) MISSPELLINGS"
  by code_simp

text \<open>
  Claim C7, counterexample. \<open>solana\<close> is a key of the misspelling index, mapped to SOL;
  the resolver returns BTC for it.
\<close>

theorem extract_ticker_misspelling_counterexample:
  "map_of MISSPELLINGS ''solana'' = Some ''SOL'' \<and> extract_ticker_from_text ''solana'' = ''BTC''"
  by code_simp

text \<open>
  Claim C7, amended. The resolver returns a ticker only (no confidence) and does not
  read the misspelling index. For the keys \<open>etherium\<close>, \<open>bitcon\<close>, \<open>polkadot\<close>,
  \<open>chainlink\<close> and \<open>uniswap\<close> of the index it returns the ticker the index maps the key
  to; for each of the other nine keys it returns BTC.
\<close>

theorem extract_ticker_on_misspellings:
  "(k, t) \<in> set MISSPELLINGS \<Longrightarrow>
     extract_ticker_from_text k =
       (if k \<in> set [''etherium'', ''bitcon'', ''polkadot'', ''chainlink'', ''uniswap''] then t
        else ''BTC'')"
  using misspellings_resolved unfolding list_all_iff by fast

theorem extract_ticker_on_misspellings_witness:
  "(''etherium'', ''ETH'') \<in> set MISSPELLINGS \<and> extract_ticker_from_text ''etherium'' = ''ETH''"
proof -
  have h: "(''etherium'', ''ETH'') \<in> set MISSPELLINGS"
    by (simp add: MISSPELLINGS_def)
  from extract_ticker_on_misspellings [OF h] h show ?thesis by simp
qed

text \<open>
  Claim C8, counterexample. \<open>cardano\<close> is an alias of ADA and occurs in the lower-cased
  text; the resolver returns BTC.
\<close>

theorem extract_ticker_alias_counterexample:
  "''cardano'' \<in> set (dict_get (aliases (get_asset_by_ticker ''ADA'')) []) \<and>
   str_in ''cardano'' (lower ''Analyze Cardano'') \<and>
   extract_ticker_from_text ''Analyze Cardano'' = ''BTC''"
  by code_simp

text \<open>
  Claim C8, amended. The resolver returns a ticker only (no confidence). When the
  lower-cased text contains the lower-cased symbol of one of the eight common tickers
  (BTC, ETH, ADA, DOT, LINK, UNI, LTC, BCH), it returns the first such ticker in that
  order, and that symbol is an alias of the returned asset in the catalog; when the text
  contains none of them it returns BTC.
\<close>

theorem extract_ticker_first_symbol:
  "((\<exists>t\<in>set common_tickers. str_in (lower t) (lower text)) \<longrightarrow>
      str_in (lower (extract_ticker_from_text text)) (lower text) \<and>
      (\<exists>pre post. common_tickers = pre @ extract_ticker_from_text text # post \<and>
         (\<forall>p\<in>set pre. \<not> str_in (lower p) (lower text))) \<and>
      lower (extract_ticker_from_text text)
        \<in> set (dict_get (aliases (get_asset_by_ticker (extract_ticker_from_text text))) [])) \<and>
   ((\<forall>t\<in>set common_tickers. \<not> str_in (lower t) (lower text)) \<longrightarrow>
      extract_ticker_from_text text = ''BTC'')"
proof -
  have found: "str_in (lower (extract_ticker_from_text text)) (lower text) \<and>
      (\<exists>pre post. common_tickers = pre @ extract_ticker_from_text text # post \<and>
         (\<forall>p\<in>set pre. \<not> str_in (lower p) (lower text))) \<and>
      lower (extract_ticker_from_text text)
        \<in> set (dict_get (aliases (get_asset_by_ticker (extract_ticker_from_text text))) [])"
    if h: "\<exists>t\<in>set common_tickers. str_in (lower t) (lower text)"
  proof -
    from extract_loop_first [OF h]
    have first: "str_in (lower (extract_ticker_from_text text)) (lower text) \<and>
      (\<exists>pre post. common_tickers = pre @ extract_ticker_from_text text # post \<and>
         (\<forall>p\<in>set pre. \<not> str_in (lower p) (lower text)))"
      by (simp add: extract_ticker_from_text_def)
    then have "extract_ticker_from_text text \<in> set common_tickers"
      by (metis in_set_conv_decomp)
    with common_symbols_are_aliases
    have "lower (extract_ticker_from_text text)
        \<in> set (dict_get (aliases (get_asset_by_ticker (extract_ticker_from_text text))) [])"
      unfolding list_all_iff by blast
    with first show ?thesis by blast
  qed
  have none: "extract_ticker_from_text text = ''BTC''"
    if "\<forall>t\<in>set common_tickers. \<not> str_in (lower t) (lower text)"
    using extract_loop_none [OF that] by (simp add: extract_ticker_from_text_def)
  from found none show ?thesis by blast
qed

theorem extract_ticker_first_symbol_witness:
  "(\<exists>t\<in>set common_tickers. str_in (lower t) (lower ''What about Ethereum'')) \<and>
   extract_ticker_from_text ''What about Ethereum'' = ''ETH'' \<and>
   str_in (lower ''ETH'') (lower ''What about Ethereum'') \<and>
   lower ''ETH'' \<in> set (dict_get (aliases (get_asset_by_ticker ''ETH'')) [])"
proof -
  have h: "\<exists>t\<in>set common_tickers. str_in (lower t) (lower ''What about Ethereum'')"
    by code_simp
  have e: "extract_ticker_from_text ''What about Ethereum'' = ''ETH''"
    by code_simp
  from extract_ticker_first_symbol [of "''What about Ethereum''"] h
  have "str_in (lower (extract_ticker_from_text ''What about Ethereum''))
          (lower ''What about Ethereum'') \<and>
        lower (extract_ticker_from_text ''What about Ethereum'')
          \<in> set (dict_get (aliases (get_asset_by_ticker
               (extract_ticker_from_text ''What about Ethereum''))) [])"
    by blast
  with h e show ?thesis by simp
qed

section \<open>The asset-extraction stage\<close>

lemma those_None_iff: "those xs = None \<longleftrightarrow> None \<in> set xs"
  by (induction xs) (auto split: option.splits)

lemma tickers_of_raises_iff:
  "(\<exists>e. tickers_of assets = Inl e) \<longleftrightarrow> (\<exists>a\<in>set assets. asset.ticker a = None)"
proof -
  have "(\<exists>e. tickers_of assets = Inl e) \<longleftrightarrow> those (map asset.ticker assets) = None"
    by (simp add: tickers_of_def split: option.splits)
  also have "\<dots> \<longleftrightarrow> None \<in> set (map asset.ticker assets)"
    by (rule those_None_iff)
  also have "\<dots> \<longleftrightarrow> (\<exists>a\<in>set assets. asset.ticker a = None)"
    by force
  finally show ?thesis .
qed

lemma extraction_agent_unfold:
  "enhanced_asset_extraction_agent rt now state =
     (case snd (extraction_try rt now state) of
        None \<Rightarrow> fst (extraction_try rt now state)
      | Some e \<Rightarrow> extraction_except now e (fst (extraction_try rt now state)))"
  by (auto simp: enhanced_asset_extraction_agent_def split: prod.splits option.splits)

lemma try_raised:
  "snd (extraction_try rt now state) = Some e \<Longrightarrow>
     extracted_assets (enhanced_asset_extraction_agent rt now state) = Some [fallback_asset] \<and>
     ticker (enhanced_asset_extraction_agent rt now state) = ''BTC'' \<and>
     hitl_required (enhanced_asset_extraction_agent rt now state) = Some True \<and>
     hitl_reason (enhanced_asset_extraction_agent rt now state) = Some ''extraction_error''"
  by (simp add: extraction_agent_unfold extraction_except_def)

lemma try_returned:
  "snd (extraction_try rt now state) = None \<Longrightarrow>
     \<exists>data. asset_chain rt (user_input_of state) = Inr data \<and>
       extracted_assets (enhanced_asset_extraction_agent rt now state) =
         Some (dict_get (asset_data.extracted_assets data) []) \<and>
       hitl_required (enhanced_asset_extraction_agent rt now state) =
         Some (dict_get (asset_data.hitl_required data) False) \<and>
       hitl_reason (enhanced_asset_extraction_agent rt now state) =
         Some (dict_get (asset_data.hitl_reason data) '''') \<and>
       (\<exists>ts. tickers_of (dict_get (asset_data.extracted_assets data) []) = Inr ts)"
  unfolding enhanced_asset_extraction_agent_def extraction_try_def Let_def
  by (auto split: sum.splits list.splits option.splits)

lemma try_raises_iff:
  "snd (extraction_try rt now state) \<noteq> None \<longleftrightarrow>
     (case asset_chain rt (user_input_of state) of
        Inl e \<Rightarrow> True
      | Inr data \<Rightarrow> (\<exists>e. tickers_of (dict_get (asset_data.extracted_assets data) []) = Inl e))"
  unfolding extraction_try_def Let_def
  by (auto simp: tickers_of_def split: sum.splits list.splits option.splits)

text \<open>
  Claim C1, counterexample. When the language model replies \<open>{}\<close>, extraction succeeds
  and the list stored in the state is empty; when it replies with an asset whose ticker
  \<open>XYZ\<close> is not in the catalog, that asset is stored as it came.
\<close>

theorem extraction_assets_counterexample:
  "extracted_assets (enhanced_asset_extraction_agent
      (env_replying (Inr empty_reply) (Inr ''BTC'')) ''t0'' (initial_state ''asdkjqwe123''))
     = Some [] \<and>
   extracted_assets (enhanced_asset_extraction_agent
      (env_replying
         (Inr (empty_reply \<lparr> asset_data.extracted_assets := Some [extracted ''XYZ'' ''Xyz'' (9/10)] \<rparr>))
         (Inr ''BTC''))
      ''t0'' (initial_state ''xyz outlook''))
     = Some [extracted ''XYZ'' ''Xyz'' (9/10)] \<and>
   upper ''XYZ'' \<notin> set (map fst CRYPTO_ASSETS)"
  by code_simp

text \<open>
  Claim C1, amended. Extraction fails when the \<open>try\<close> block raises: the model call or
  the JSON parsing raises, or an asset of the reply has no \<open>ticker\<close> key. Then the list
  stored in the state is exactly the single fallback entry, BTC (a catalog ticker) with
  confidence 0.5. When extraction succeeds, the list is the reply's \<open>extracted_assets\<close>
  as it came (the empty list when the reply has no such key): it is not checked against
  the catalog and may be empty.
\<close>

theorem extraction_resolved_assets:
  "(snd (extraction_try rt now state) \<noteq> None \<longrightarrow>
      extracted_assets (enhanced_asset_extraction_agent rt now state) = Some [fallback_asset]) \<and>
   (snd (extraction_try rt now state) = None \<longrightarrow>
      (\<exists>data. asset_chain rt (user_input_of state) = Inr data \<and>
         extracted_assets (enhanced_asset_extraction_agent rt now state) =
           Some (dict_get (asset_data.extracted_assets data) []))) \<and>
   (snd (extraction_try rt now state) \<noteq> None \<longleftrightarrow>
      (case asset_chain rt (user_input_of state) of
         Inl e \<Rightarrow> True
       | Inr data \<Rightarrow>
           (\<exists>a\<in>set (dict_get (asset_data.extracted_assets data) []). asset.ticker a = None))) \<and>
   asset.ticker fallback_asset = Some ''BTC'' \<and>
   confidence fallback_asset = Some (1/2) \<and>
   ''BTC'' \<in> set (map fst CRYPTO_ASSETS)"
proof -
  have a: "extracted_assets (enhanced_asset_extraction_agent rt now state) = Some [fallback_asset]"
    if "snd (extraction_try rt now state) \<noteq> None"
  proof -
    from that obtain e where "snd (extraction_try rt now state) = Some e" by blast
    from try_raised [OF this] show ?thesis by blast
  qed
  have b: "\<exists>data. asset_chain rt (user_input_of state) = Inr data \<and>
         extracted_assets (enhanced_asset_extraction_agent rt now state) =
           Some (dict_get (asset_data.extracted_assets data) [])"
    if "snd (extraction_try rt now state) = None"
    using try_returned [OF that] by blast
  have c: "snd (extraction_try rt now state) \<noteq> None \<longleftrightarrow>
      (case asset_chain rt (user_input_of state) of
         Inl e \<Rightarrow> True
       | Inr data \<Rightarrow>
           (\<exists>a\<in>set (dict_get (asset_data.extracted_assets data) []). asset.ticker a = None))"
    unfolding try_raises_iff tickers_of_raises_iff ..
  have d: "asset.ticker fallback_asset = Some ''BTC'' \<and> confidence fallback_asset = Some (1/2)"
    by (simp add: fallback_asset_def)
  have e: "''BTC'' \<in> set (map fst CRYPTO_ASSETS)"
    by (simp add: catalog_keys)
  from a b c d e show ?thesis by blast
qed

theorem extraction_resolved_assets_witness:
  "snd (extraction_try (env_replying (Inl (Exception ''timeout'')) (Inr ''BTC'')) ''t0''
          (initial_state ''asdkjqwe123'')) \<noteq> None \<and>
   extracted_assets (enhanced_asset_extraction_agent
      (env_replying (Inl (Exception ''timeout'')) (Inr ''BTC'')) ''t0''
      (initial_state ''asdkjqwe123'')) = Some [fallback_asset] \<and>
   snd (extraction_try
          (env_replying
             (Inr (empty_reply \<lparr> asset_data.extracted_assets :=
                     Some [extracted ''ETH'' ''Ethereum'' (98/100)] \<rparr>))
             (Inr ''BTC'')) ''t0'' (initial_state ''ethereum'')) = None \<and>
   (\<exists>data. asset_chain
        (env_replying
           (Inr (empty_reply \<lparr> asset_data.extracted_assets :=
                   Some [extracted ''ETH'' ''Ethereum'' (98/100)] \<rparr>))
           (Inr ''BTC'')) (user_input_of (initial_state ''ethereum'')) = Inr data \<and>
      extracted_assets (enhanced_asset_extraction_agent
        (env_replying
           (Inr (empty_reply \<lparr> asset_data.extracted_assets :=
                   Some [extracted ''ETH'' ''Ethereum'' (98/100)] \<rparr>))
           (Inr ''BTC'')) ''t0'' (initial_state ''ethereum''))
        = Some (dict_get (asset_data.extracted_assets data) []))"
proof -
  let ?E1 = "env_replying (Inl (Exception ''timeout'')) (Inr ''BTC'')"
  let ?E2 = "env_replying
           (Inr (empty_reply \<lparr> asset_data.extracted_assets :=
                   Some [extracted ''ETH'' ''Ethereum'' (98/100)] \<rparr>))
           (Inr ''BTC'')"
  have h1: "snd (extraction_try ?E1 ''t0'' (initial_state ''asdkjqwe123'')) \<noteq> None"
    by code_simp
  have h2: "snd (extraction_try ?E2 ''t0'' (initial_state ''ethereum'')) = None"
    by code_simp
  from extraction_resolved_assets [of ?E1 "''t0''" "initial_state ''asdkjqwe123''"] h1
  have c1: "extracted_assets (enhanced_asset_extraction_agent ?E1 ''t0''
      (initial_state ''asdkjqwe123'')) = Some [fallback_asset]"
    by blast
  from extraction_resolved_assets [of ?E2 "''t0''" "initial_state ''ethereum''"] h2
  have c2: "\<exists>data. asset_chain ?E2 (user_input_of (initial_state ''ethereum'')) = Inr data \<and>
      extracted_assets (enhanced_asset_extraction_agent ?E2 ''t0'' (initial_state ''ethereum''))
        = Some (dict_get (asset_data.extracted_assets data) [])"
    by blast
  from h1 h2 c1 c2 show ?thesis by blast
qed

text \<open>
  Claim C4, counterexample. The model replies \<open>{"hitl_required": true}\<close> and no reason:
  extraction succeeds, review is required, and the reason code stored is empty.
\<close>

theorem extraction_hitl_counterexample:
  "hitl_required (enhanced_asset_extraction_agent
      (env_replying (Inr (empty_reply \<lparr> asset_data.hitl_required := Some True \<rparr>)) (Inr ''BTC''))
      ''t0'' (initial_state ''Analyze Bitcoin for me'')) = Some True \<and>
   hitl_reason (enhanced_asset_extraction_agent
      (env_replying (Inr (empty_reply \<lparr> asset_data.hitl_required := Some True \<rparr>)) (Inr ''BTC''))
      ''t0'' (initial_state ''Analyze Bitcoin for me'')) = Some '''' \<and>
   \<not> hitl_consistent True ''''"
  by code_simp

text \<open>
  Claim C4, amended. On the failure path the stage stores \<open>hitl_required = True\<close> with
  the reason \<open>extraction_error\<close>, a consistent decision. On the successful path it
  stores the reply's own \<open>hitl_required\<close> and \<open>hitl_reason\<close> (False and the empty
  string where the reply leaves them out, a consistent pair); the decision stored is
  then consistent exactly when the reply's pair is.
\<close>

theorem extraction_hitl_decision:
  "(snd (extraction_try rt now state) \<noteq> None \<longrightarrow>
      hitl_required (enhanced_asset_extraction_agent rt now state) = Some True \<and>
      hitl_reason (enhanced_asset_extraction_agent rt now state) = Some ''extraction_error'') \<and>
   (snd (extraction_try rt now state) = None \<longrightarrow>
      (\<exists>data. asset_chain rt (user_input_of state) = Inr data \<and>
         hitl_required (enhanced_asset_extraction_agent rt now state) =
           Some (dict_get (asset_data.hitl_required data) False) \<and>
         hitl_reason (enhanced_asset_extraction_agent rt now state) =
           Some (dict_get (asset_data.hitl_reason data) ''''))) \<and>
   hitl_consistent True ''extraction_error'' \<and>
   hitl_consistent False ''''"
proof -
  have a: "hitl_required (enhanced_asset_extraction_agent rt now state) = Some True \<and>
      hitl_reason (enhanced_asset_extraction_agent rt now state) = Some ''extraction_error''"
    if "snd (extraction_try rt now state) \<noteq> None"
  proof -
    from that obtain e where "snd (extraction_try rt now state) = Some e" by blast
    from try_raised [OF this] show ?thesis by blast
  qed
  have b: "\<exists>data. asset_chain rt (user_input_of state) = Inr data \<and>
         hitl_required (enhanced_asset_extraction_agent rt now state) =
           Some (dict_get (asset_data.hitl_required data) False) \<and>
         hitl_reason (enhanced_asset_extraction_agent rt now state) =
           Some (dict_get (asset_data.hitl_reason data) '''')"
    if "snd (extraction_try rt now state) = None"
    using try_returned [OF that] by blast
  have c: "hitl_consistent True ''extraction_error'' \<and> hitl_consistent False ''''"
    by (simp add: hitl_consistent_def)
  from a b c show ?thesis by blast
qed

theorem extraction_hitl_decision_witness:
  "snd (extraction_try (env_replying (Inl (Exception ''timeout'')) (Inr ''BTC'')) ''t0''
          (initial_state ''asdkjqwe123'')) \<noteq> None \<and>
   hitl_required (enhanced_asset_extraction_agent
      (env_replying (Inl (Exception ''timeout'')) (Inr ''BTC'')) ''t0''
      (initial_state ''asdkjqwe123'')) = Some True \<and>
   hitl_reason (enhanced_asset_extraction_agent
      (env_replying (Inl (Exception ''timeout'')) (Inr ''BTC'')) ''t0''
      (initial_state ''asdkjqwe123'')) = Some ''extraction_error'' \<and>
   snd (extraction_try (env_replying (Inr empty_reply) (Inr ''BTC'')) ''t0''
          (initial_state ''Analyze Bitcoin for me'')) = None \<and>
   hitl_required (enhanced_asset_extraction_agent
      (env_replying (Inr empty_reply) (Inr ''BTC'')) ''t0''
      (initial_state ''Analyze Bitcoin for me'')) = Some False \<and>
   hitl_reason (enhanced_asset_extraction_agent
      (env_replying (Inr empty_reply) (Inr ''BTC'')) ''t0''
      (initial_state ''Analyze Bitcoin for me'')) = Some ''''"
proof -
  let ?E1 = "env_replying (Inl (Exception ''timeout'')) (Inr ''BTC'')"
  let ?E2 = "env_replying (Inr empty_reply) (Inr ''BTC'')"
  have h1: "snd (extraction_try ?E1 ''t0'' (initial_state ''asdkjqwe123'')) \<noteq> None"
    by code_simp
  have h2: "snd (extraction_try ?E2 ''t0'' (initial_state ''Analyze Bitcoin for me'')) = None"
    by code_simp
  have r: "asset_chain ?E2 (user_input_of (initial_state ''Analyze Bitcoin for me'')) = Inr empty_reply"
    by (simp add: env_replying_def)
  have d: "dict_get (asset_data.hitl_required empty_reply) False = False \<and>
           dict_get (asset_data.hitl_reason empty_reply) '''' = ''''"
    by (simp add: empty_reply_def dict_get_def)
  from extraction_hitl_decision [of ?E1 "''t0''" "initial_state ''asdkjqwe123''"] h1
  have c1: "hitl_required (enhanced_asset_extraction_agent ?E1 ''t0''
        (initial_state ''asdkjqwe123'')) = Some True \<and>
      hitl_reason (enhanced_asset_extraction_agent ?E1 ''t0''
        (initial_state ''asdkjqwe123'')) = Some ''extraction_error''"
    by blast
  from extraction_hitl_decision [of ?E2 "''t0''" "initial_state ''Analyze Bitcoin for me''"] h2
  obtain data where
    "asset_chain ?E2 (user_input_of (initial_state ''Analyze Bitcoin for me'')) = Inr data"
    "hitl_required (enhanced_asset_extraction_agent ?E2 ''t0''
        (initial_state ''Analyze Bitcoin for me'')) =
       Some (dict_get (asset_data.hitl_required data) False)"
    "hitl_reason (enhanced_asset_extraction_agent ?E2 ''t0''
        (initial_state ''Analyze Bitcoin for me'')) =
       Some (dict_get (asset_data.hitl_reason data) '''')"
    by blast
  with r d have c2: "hitl_required (enhanced_asset_extraction_agent ?E2 ''t0''
        (initial_state ''Analyze Bitcoin for me'')) = Some False \<and>
      hitl_reason (enhanced_asset_extraction_agent ?E2 ''t0''
        (initial_state ''Analyze Bitcoin for me'')) = Some ''''"
    by simp
  from h1 h2 c1 c2 show ?thesis by blast
qed

section \<open>The validation stage\<close>

lemma validation_loop_eq:
  "validation_loop rt as acc = acc @ concat (map (warnings_for rt) as)"
  by (induction as arbitrary: acc)
     (simp_all add: warnings_for_def is_stablecoin_def get_confidence_threshold_def Let_def)

text \<open>
  Claim C6. For every state, the warnings the validation stage stores are the warnings
  of the first asset, then those of the second, and so on in the order of the list;
  and the warnings of one asset are, in this order, the stablecoin warning if its catalog
  sectors include Stablecoin, the low-confidence warning if its confidence (0 when it has
  none) is strictly below the threshold 0.85, and the meme warning if its catalog sectors
  include Meme. Each rule applies on its own. The list of assets is left as it was.
\<close>

theorem validation_warnings:
  "asset_warnings (asset_validation_agent rt now state) =
     Some (concat (map (warnings_for rt) (dict_get (extracted_assets state) []))) \<and>
   extracted_assets (asset_validation_agent rt now state) = extracted_assets state \<and>
   get_confidence_threshold = 85/100"
  by (simp add: asset_validation_agent_def Let_def validation_loop_eq get_confidence_threshold_def)

theorem validation_warnings_witness:
  "asset_warnings (asset_validation_agent (env_replying (Inr empty_reply) (Inr ''BTC'')) ''t1''
      ((initial_state ''usdt and doge'')
         \<lparr> extracted_assets := Some [extracted ''USDT'' ''Tether'' (96/100),
                                     extracted ''DOGE'' ''Dogecoin'' (8/10)] \<rparr>)) =
   Some [''Stablecoin detected: USDT - Technical analysis may not be meaningful'',
         ''Low confidence in DOGE: '',
         ''Meme coin detected: DOGE - High volatility expected'']"
proof -
  let ?E = "env_replying (Inr empty_reply) (Inr ''BTC'')"
  let ?S = "(initial_state ''usdt and doge'')
         \<lparr> extracted_assets := Some [extracted ''USDT'' ''Tether'' (96/100),
                                     extracted ''DOGE'' ''Dogecoin'' (8/10)] \<rparr>"
  have e: "Some (concat (map (warnings_for ?E) (dict_get (extracted_assets ?S) []))) =
    Some [''Stablecoin detected: USDT - Technical analysis may not be meaningful'',
          ''Low confidence in DOGE: '',
          ''Meme coin detected: DOGE - High volatility expected'']"
    by code_simp
  from validation_warnings [of ?E "''t1''" ?S]
  have "asset_warnings (asset_validation_agent ?E ''t1'' ?S) =
     Some (concat (map (warnings_for ?E) (dict_get (extracted_assets ?S) [])))"
    by blast
  with e show ?thesis by (simp only:)
qed

section \<open>The message log\<close>






















section \<open>The ticker validity check\<close>

text \<open>
  Claim C10. \<open>is_valid_ticker\<close> accepts exactly the fifteen values of \<open>CRYPTO_TICKERS\<close>,
  all of them catalog tickers. USDT, DOGE and AAVE are in the catalog and are not
  accepted. So when the model's reply, cleaned of quotes and white space, is a catalog
  ticker outside the fifteen, the AI ticker-extraction stage stores BTC.
\<close>

theorem is_valid_ticker_legacy_only:
  "(is_valid_ticker t \<longleftrightarrow>
      t \<in> set [''BTC'', ''ETH'', ''ADA'', ''DOT'', ''LINK'', ''UNI'', ''LTC'', ''BCH'', ''SOL'',
               ''MATIC'', ''AVAX'', ''ATOM'', ''ALGO'', ''XLM'', ''VET'']) \<and>
   length get_available_tickers = 15 \<and>
   distinct get_available_tickers \<and>
   set get_available_tickers \<subseteq> set (map fst CRYPTO_ASSETS) \<and>
   ''USDT'' \<in> set (map fst CRYPTO_ASSETS) \<and> \<not> is_valid_ticker ''USDT'' \<and>
   ''DOGE'' \<in> set (map fst CRYPTO_ASSETS) \<and> \<not> is_valid_ticker ''DOGE'' \<and>
   ''AAVE'' \<in> set (map fst CRYPTO_ASSETS) \<and> \<not> is_valid_ticker ''AAVE'' \<and>
   (ticker_chain rt (user_input_of state) = Inr reply \<and>
    clean_reply reply \<in> set (map fst CRYPTO_ASSETS) \<and>
    \<not> is_valid_ticker (clean_reply reply) \<longrightarrow>
      ticker (ai_ticker_extraction_agent rt state) = ''BTC'')"
proof -
  have a: "is_valid_ticker t \<longleftrightarrow>
      t \<in> set [''BTC'', ''ETH'', ''ADA'', ''DOT'', ''LINK'', ''UNI'', ''LTC'', ''BCH'', ''SOL'',
               ''MATIC'', ''AVAX'', ''ATOM'', ''ALGO'', ''XLM'', ''VET'']"
    by (simp only: is_valid_ticker_def available_tickers)
  have b: "length get_available_tickers = 15 \<and> distinct get_available_tickers"
    by (simp add: available_tickers)
  have c: "set get_available_tickers \<subseteq> set (map fst CRYPTO_ASSETS)"
    by (simp add: available_tickers catalog_keys)
  have d: "''USDT'' \<in> set (map fst CRYPTO_ASSETS) \<and> \<not> is_valid_ticker ''USDT'' \<and>
   ''DOGE'' \<in> set (map fst CRYPTO_ASSETS) \<and> \<not> is_valid_ticker ''DOGE'' \<and>
   ''AAVE'' \<in> set (map fst CRYPTO_ASSETS) \<and> \<not> is_valid_ticker ''AAVE''"
    by (simp add: is_valid_ticker_def available_tickers catalog_keys)
  have e: "ticker (ai_ticker_extraction_agent rt state) = ''BTC''"
    if "ticker_chain rt (user_input_of state) = Inr reply"
      and "\<not> is_valid_ticker (clean_reply reply)"
    using that by (simp add: ai_ticker_extraction_agent_def Let_def)
  from a b c d e show ?thesis by blast
qed

theorem is_valid_ticker_legacy_only_witness:
  "ticker_chain (env_replying (Inr empty_reply) (Inr '' USDT ''))
      (user_input_of (initial_state ''Tether outlook'')) = Inr '' USDT '' \<and>
   clean_reply '' USDT '' = ''USDT'' \<and>
   clean_reply '' USDT '' \<in> set (map fst CRYPTO_ASSETS) \<and>
   \<not> is_valid_ticker (clean_reply '' USDT '') \<and>
   ticker (ai_ticker_extraction_agent (env_replying (Inr empty_reply) (Inr '' USDT ''))
      (initial_state ''Tether outlook'')) = ''BTC''"
proof -
  let ?E = "env_replying (Inr empty_reply) (Inr '' USDT '')"
  have h1: "ticker_chain ?E (user_input_of (initial_state ''Tether outlook'')) = Inr '' USDT ''"
    by (simp add: env_replying_def)
  have h2: "clean_reply '' USDT '' = ''USDT''"
    by code_simp
  have h3: "clean_reply '' USDT '' \<in> set (map fst CRYPTO_ASSETS)"
    by code_simp
  have h4: "\<not> is_valid_ticker (clean_reply '' USDT '')"
    by code_simp
  from is_valid_ticker_legacy_only [of _ ?E "initial_state ''Tether outlook''" "'' USDT ''"]
    h1 h3 h4
  have "ticker (ai_ticker_extraction_agent ?E (initial_state ''Tether outlook'')) = ''BTC''"
    by blast
  with h1 h2 h3 h4 show ?thesis by blast
qed

end
